theory Spec2Isabelle
  imports Main "HOL-Library.Word"
begin

section \<open>The custom encoder framework of netcap\<close>

text \<open>
  A shallow embedding of the Go package \<open>encoder\<close> (the file that declares
  \<open>CustomEncoder\<close>, \<open>InitCustomEncoders\<close>, \<open>Encode\<close>, \<open>Init\<close>, \<open>Destroy\<close> and
  \<open>GetChan\<close>) and of \<open>types/ip4.go\<close>. A nil pointer is \<open>None\<close>, a panic or a fatal
  exit is the left summand of a sum type, a Go \<open>error\<close> value is its message.
\<close>

subsection \<open>Values\<close>

type_synonym go_error = string

datatype panic =
    Panic string                 \<comment> \<open>\<open>panic("...")\<close> with a string\<close>
  | PanicErr go_error            \<comment> \<open>\<open>panic(err)\<close>\<close>
  | NilPointerDereference        \<comment> \<open>the runtime panic of a nil dereference or nil call\<close>
  | InvalidEncoder string        \<comment> \<open>the fatal exit of \<open>invalidEncoder(name)\<close>\<close>

text \<open>
  Modelled from the spec: \<open>CreateFile\<close> is not part of the sources at hand. By section
  4.1 of the specification the output path is the output directory joined with the
  encoder name, plus an extension. A file handle records the two arguments of the call
  that created it; \<open>filepath.Join\<close> of the standard library is kept symbolic.
\<close>

datatype path = filepath_Join string string

datatype os_File = CreateFile path string

datatype chanWriter = newChanWriter

datatype chan = Chan chanWriter

text \<open>
  An \<open>io.Writer\<close> interface value: a \<open>*os.File\<close> or a \<open>*chanWriter\<close> (either may be a
  nil pointer), a \<open>bufio.Writer\<close> of a given size over a writer, or a \<open>gzip.Writer\<close> over
  a writer.
\<close>

datatype io_Writer =
    FileW "os_File option"
  | ChanW "chanWriter option"
  | bufio_NewWriterSize io_Writer nat
  | gzip_NewWriter io_Writer

datatype delimited_Writer = delimited_NewWriter io_Writer

text \<open>
  Modelled from the spec: \<open>AtomicDelimitedWriter\<close> is not part of the sources at hand.
  By section 4.2 it wraps the framer and appends one framed record per successful
  \<open>PutProto\<close>; on failure the error is returned and no partial frame is left on the
  stream. \<open>frames\<close> is the sequence of records framed so far.
\<close>

record 'm AtomicDelimitedWriter =
  adw_w :: "delimited_Writer option"
  frames :: "'m list"

definition NewAtomicDelimitedWriter :: "delimited_Writer option \<Rightarrow> 'm AtomicDelimitedWriter" where
  "NewAtomicDelimitedWriter d = \<lparr>adw_w = d, frames = []\<rparr>"

text \<open>
  The first argument is the outcome of the underlying write, which the environment
  decides: \<open>None\<close> for success, \<open>Some err\<close> for an I/O or serialization failure.
\<close>

definition PutProto ::
  "go_error option \<Rightarrow> 'm AtomicDelimitedWriter \<Rightarrow> 'm \<Rightarrow> go_error option \<times> 'm AtomicDelimitedWriter" where
  "PutProto io a pb =
     (case io of
        None \<Rightarrow> (None, a\<lparr>frames := frames a @ [pb]\<rparr>)
      | Some err \<Rightarrow> (Some err, a))"

text \<open>
  Modelled from the spec: \<open>csvWriter\<close> is not part of the sources at hand. By section
  4.1 it writes a header row of field names once, then one row per record. The only
  method the sources call is \<open>WriteHeader\<close>.
\<close>

datatype 'm csv_line = HeaderRow 'm | RecordRow 'm

record 'm csvWriter =
  csv_w :: io_Writer
  lines :: "'m csv_line list"

definition NewCSVWriter :: "io_Writer \<Rightarrow> 'm csvWriter" where
  "NewCSVWriter x = \<lparr>csv_w = x, lines = []\<rparr>"

definition WriteHeader ::
  "go_error option \<Rightarrow> 'm csvWriter \<Rightarrow> 'm \<Rightarrow> go_error option \<times> 'm csvWriter" where
  "WriteHeader io c msg =
     (case io of
        None \<Rightarrow> (None, c\<lparr>lines := lines c @ [HeaderRow msg]\<rparr>)
      | Some err \<Rightarrow> (Some err, c))"

subsection \<open>The encoder\<close>

text \<open>
  The struct \<open>CustomEncoder\<close>, field by field. \<open>'p\<close> is \<open>gopacket.Packet\<close>, \<open>'m\<close> is
  \<open>proto.Message\<close>, \<open>'t\<close> is \<open>types.Type\<close>. A hook (\<open>postinit\<close>, \<open>deinit\<close>) takes the
  encoder itself, so the record stores a name \<open>'h\<close> for it and the functions that run
  hooks take an interpretation of the names. \<open>numRecords\<close> is an \<open>int64\<close>.
\<close>

record ('p, 'm, 't, 'h) CustomEncoder =
  Name :: string
  Type :: 't
  file' :: "os_File option"
  bWriter :: "io_Writer option"
  gWriter :: "io_Writer option"
  dWriter :: "delimited_Writer option"
  aWriter :: "'m AtomicDelimitedWriter option"
  cWriter :: "chanWriter option"
  csvWriter :: "'m csvWriter option"
  Handler :: "('p \<Rightarrow> 'm option) option"
  postinit :: "'h option"
  deinit :: "'h option"
  compress :: bool
  buffer :: bool
  csv :: bool
  out :: string
  numRecords :: "64 word"

type_synonym ('p, 'm, 't, 'h) hooks =
  "'h \<Rightarrow> ('p, 'm, 't, 'h) CustomEncoder \<Rightarrow> go_error option \<times> ('p, 'm, 't, 'h) CustomEncoder"

definition CreateCustomEncoder ::
  "'t \<Rightarrow> string \<Rightarrow> 'h option \<Rightarrow> ('p \<Rightarrow> 'm option) option \<Rightarrow> 'h option
     \<Rightarrow> ('p, 'm, 't, 'h) CustomEncoder" where
  "CreateCustomEncoder t name postinit' handler deinit' =
     \<lparr>Name = name, Type = t, file' = None, bWriter = None, gWriter = None, dWriter = None,
      aWriter = None, cWriter = None, csvWriter = None, Handler = handler,
      postinit = postinit', deinit = deinit', compress = False, buffer = False,
      csv = False, out = [], numRecords = 0\<rparr>"

text \<open>
  \<open>Init\<close>. \<open>BlockSize\<close> is a constant declared outside the sources at hand and is a
  parameter. The branches are those of the source, in its order.
\<close>

definition Init ::
  "nat \<Rightarrow> ('p, 'm, 't, 'h) CustomEncoder \<Rightarrow> bool \<Rightarrow> bool \<Rightarrow> bool \<Rightarrow> string \<Rightarrow> bool
     \<Rightarrow> panic + ('p, 'm, 't, 'h) CustomEncoder" where
  "Init BlockSize e0 buffer' compress' csv' out' writeChan =
    (let e = e0\<lparr>compress := compress', buffer := buffer', csv := csv', out := out'\<rparr> in
     if csv' then
       (let e = (if compress'
                 then e\<lparr>file' := Some (CreateFile (filepath_Join out' (Name e)) ''.csv.gz'')\<rparr>
                 else e\<lparr>file' := Some (CreateFile (filepath_Join out' (Name e)) ''.csv'')\<rparr>) in
        if buffer' then
          (let bw = bufio_NewWriterSize (FileW (file' e)) BlockSize;
               e = e\<lparr>bWriter := Some bw\<rparr> in
           if compress' then
             (let gw = gzip_NewWriter bw in
              Inr (e\<lparr>gWriter := Some gw, csvWriter := Some (NewCSVWriter gw)\<rparr>))
           else Inr (e\<lparr>csvWriter := Some (NewCSVWriter bw)\<rparr>))
        else
          (if compress' then
             (let gw = gzip_NewWriter (FileW (file' e)) in
              Inr (e\<lparr>gWriter := Some gw, csvWriter := Some (NewCSVWriter gw)\<rparr>))
           else Inr (e\<lparr>csvWriter := Some (NewCSVWriter (FileW (file' e)))\<rparr>)))
     else if writeChan \<and> buffer' \<or> writeChan \<and> compress' then
       Inl (Panic ''buffering or compression cannot be activated when running using writeChan'')
     else
       (let e = (if writeChan then e\<lparr>cWriter := Some newChanWriter\<rparr>
                 else if compress'
                 then e\<lparr>file' := Some (CreateFile (filepath_Join out' (Name e)) ''.ncap.gz'')\<rparr>
                 else e\<lparr>file' := Some (CreateFile (filepath_Join out' (Name e)) ''.ncap'')\<rparr>);
            e = (if buffer' then
                   (let bw = bufio_NewWriterSize (FileW (file' e)) BlockSize;
                        e = e\<lparr>bWriter := Some bw\<rparr> in
                    if compress' then
                      (let gw = gzip_NewWriter bw in
                       e\<lparr>gWriter := Some gw, dWriter := Some (delimited_NewWriter gw)\<rparr>)
                    else e\<lparr>dWriter := Some (delimited_NewWriter bw)\<rparr>)
                 else
                   (if compress' then
                      (let gw = gzip_NewWriter (FileW (file' e)) in
                       e\<lparr>gWriter := Some gw, dWriter := Some (delimited_NewWriter gw)\<rparr>)
                    else if writeChan then
                      e\<lparr>dWriter := Some (delimited_NewWriter (ChanW (cWriter e)))\<rparr>
                    else e\<lparr>dWriter := Some (delimited_NewWriter (FileW (file' e)))\<rparr>))
        in Inr (e\<lparr>aWriter := Some (NewAtomicDelimitedWriter (dWriter e))\<rparr>)))"

text \<open>
  \<open>Encode\<close>. The first argument is the outcome of the frame write (see \<open>PutProto\<close>).
  The result is what \<open>Encode\<close> returns (a panic, or the returned \<open>error\<close>, \<open>None\<close> for
  nil) and the encoder afterwards. Calling a nil \<open>Handler\<close> panics.

  Modelled from the spec: the body of \<open>AtomicDelimitedWriter.PutProto\<close> is not part of
  the sources at hand. By section 4.2 it takes the writer's own lock and writes
  through the framer it wraps, both fields of the receiver, so a call on a nil
  \<open>aWriter\<close> is a nil dereference.
\<close>

definition Encode ::
  "go_error option \<Rightarrow> ('p, 'm, 't, 'h) CustomEncoder \<Rightarrow> 'p
     \<Rightarrow> (panic + go_error option) \<times> ('p, 'm, 't, 'h) CustomEncoder" where
  "Encode io e p =
     (case Handler e of
        None \<Rightarrow> (Inl NilPointerDereference, e)
      | Some h \<Rightarrow>
          (case h p of
             None \<Rightarrow> (Inr None, e)
           | Some decoded \<Rightarrow>
               (let e = e\<lparr>numRecords := numRecords e + 1\<rparr> in
                case aWriter e of
                  None \<Rightarrow> (Inl NilPointerDereference, e)
                | Some a \<Rightarrow>
                    (case PutProto io a decoded of
                       (Some err, a') \<Rightarrow> (Inr (Some err), e\<lparr>aWriter := Some a'\<rparr>)
                     | (None, a') \<Rightarrow> (Inr None, e\<lparr>aWriter := Some a'\<rparr>)))))"

text \<open>
  Modelled from the spec: \<open>CloseGzipWriters\<close>, \<open>FlushWriters\<close> and \<open>CloseFile\<close> are not
  part of the sources at hand. By section 4.3 they close the compression layer, flush
  the buffered layer, and close the file, returning its final name and size.
  \<open>Destroy\<close> records its calls in the order it makes them; what \<open>CloseFile\<close> returns is
  a parameter.
\<close>

datatype 'h teardown =
    RunDeinit 'h
  | CloseGzipWriters "io_Writer option"
  | FlushWriters "io_Writer option"
  | CloseFile string "os_File option" string

definition Destroy ::
  "('p, 'm, 't, 'h) hooks \<Rightarrow> (string \<Rightarrow> os_File option \<Rightarrow> string \<Rightarrow> string \<times> 64 word)
     \<Rightarrow> ('p, 'm, 't, 'h) CustomEncoder
     \<Rightarrow> (panic + string \<times> 64 word) \<times> ('p, 'm, 't, 'h) CustomEncoder \<times> 'h teardown list" where
  "Destroy run closeFile e0 =
     (case (case deinit e0 of
              None \<Rightarrow> (None, e0, [])
            | Some h \<Rightarrow> (case run h e0 of (err, e) \<Rightarrow> (err, e, [RunDeinit h]))) of
        (Some err, e, tr) \<Rightarrow> (Inl (PanicErr err), e, tr)
      | (None, e, tr) \<Rightarrow>
          (let tr = (if compress e then tr @ [CloseGzipWriters (gWriter e)] else tr);
               tr = (if buffer e then tr @ [FlushWriters (bWriter e)] else tr)
           in (Inr (closeFile (out e) (file' e) (Name e)), e,
               tr @ [CloseFile (out e) (file' e) (Name e)])))"

text \<open>
  Modelled from the spec: \<open>chanWriter.Chan\<close> is not part of the sources at hand. By
  section 4.3 \<open>GetChan\<close> is only valid on an encoder initialized in channel mode: the
  method reads the channel held by its receiver, so on a nil \<open>cWriter\<close> the call is a
  nil dereference.
\<close>

definition GetChan :: "('p, 'm, 't, 'h) CustomEncoder \<Rightarrow> panic + chan" where
  "GetChan e = (case cWriter e of None \<Rightarrow> Inl NilPointerDereference | Some c \<Rightarrow> Inr (Chan c))"

definition NumRecords :: "('p, 'm, 't, 'h) CustomEncoder \<Rightarrow> 64 word" where
  "NumRecords e = numRecords e"

subsection \<open>The registry\<close>

record Config =
  IncludeEncoders :: string
  ExcludeEncoders :: string
  Buffer :: bool
  Compression :: bool
  CSV :: bool
  Out :: string
  WriteChan :: bool

text \<open>\<open>strings.Split(s, ",")\<close> of the standard library, for a one-byte separator.\<close>

fun strings_Split :: "string \<Rightarrow> char \<Rightarrow> string list" where
  "strings_Split [] sep = [[]]"
| "strings_Split (x # xs) sep =
     (if x = sep then [] # strings_Split xs sep
      else (case strings_Split xs sep of
              [] \<Rightarrow> [[x]]
            | y # ys \<Rightarrow> (x # y) # ys))"

text \<open>
  The package-level \<open>init\<close>: the names of the catalogue, then the names of the layer
  encoders, are entered into the map \<open>allEncoderNames\<close> (a \<open>map[string]struct{}\<close>).
  \<open>layerEncoderSlice\<close> is declared outside the sources at hand; its names
  (\<open>e.Layer.String()\<close>) are a parameter.
\<close>

definition init ::
  "('p, 'm, 't, 'h) CustomEncoder list \<Rightarrow> string list \<Rightarrow> (string \<rightharpoonup> unit)" where
  "init customEncoderSlice layerNames =
     fold (\<lambda>n m. m(n \<mapsto> ())) layerNames
       (fold (\<lambda>e m. m(Name e \<mapsto> ())) customEncoderSlice Map.empty)"

text \<open>
  The loop over the include names. Modelled from the spec: \<open>invalidEncoder\<close> is not part
  of the sources at hand; by section 4.4 an unknown name is fatal.
\<close>

fun include_names ::
  "(string \<rightharpoonup> unit) \<Rightarrow> string list \<Rightarrow> (string \<rightharpoonup> bool) \<Rightarrow> panic + (string \<rightharpoonup> bool)" where
  "include_names allEncoderNames [] inMap = Inr inMap"
| "include_names allEncoderNames (name # names) inMap =
     (if name = [] then include_names allEncoderNames names inMap
      else if allEncoderNames name = None then Inl (InvalidEncoder name)
      else include_names allEncoderNames names (inMap(name \<mapsto> True)))"

text \<open>The loop that collects the catalogue entries named in the include map.\<close>

definition collect_selection ::
  "(string \<rightharpoonup> bool) \<Rightarrow> ('p, 'm, 't, 'h) CustomEncoder list \<Rightarrow> ('p, 'm, 't, 'h) CustomEncoder list" where
  "collect_selection inMap customEncoderSlice =
     fold (\<lambda>e selection. if inMap (Name e) = None then selection else selection @ [e])
       customEncoderSlice []"

text \<open>
  The inner loop of the exclusion: the first entry with the name is cut out
  (\<open>append(s[:i], s[i+1:]...)\<close>, then \<open>break\<close>).
\<close>

fun remove_named ::
  "string \<Rightarrow> ('p, 'm, 't, 'h) CustomEncoder list \<Rightarrow> ('p, 'm, 't, 'h) CustomEncoder list" where
  "remove_named name [] = []"
| "remove_named name (e # es) = (if name = Name e then es else e # remove_named name es)"

fun exclude_names ::
  "(string \<rightharpoonup> unit) \<Rightarrow> string list \<Rightarrow> ('p, 'm, 't, 'h) CustomEncoder list
     \<Rightarrow> panic + ('p, 'm, 't, 'h) CustomEncoder list" where
  "exclude_names allEncoderNames [] customEncoderSlice = Inr customEncoderSlice"
| "exclude_names allEncoderNames (name # names) customEncoderSlice =
     (if name = [] then exclude_names allEncoderNames names customEncoderSlice
      else if allEncoderNames name = None then Inl (InvalidEncoder name)
      else exclude_names allEncoderNames names (remove_named name customEncoderSlice))"

text \<open>
  The first half of \<open>InitCustomEncoders\<close>, on the split lists: the new value of the
  global \<open>customEncoderSlice\<close>, or the fatal exit.
\<close>

definition select_encoders ::
  "(string \<rightharpoonup> unit) \<Rightarrow> ('p, 'm, 't, 'h) CustomEncoder list \<Rightarrow> string list \<Rightarrow> string list
     \<Rightarrow> panic + ('p, 'm, 't, 'h) CustomEncoder list" where
  "select_encoders allEncoderNames customEncoderSlice in' ex =
     (case (if length in' > 0 \<and> in' ! 0 \<noteq> [] then
              (case include_names allEncoderNames in' Map.empty of
                 Inl pn \<Rightarrow> Inl pn
               | Inr inMap \<Rightarrow> Inr (collect_selection inMap customEncoderSlice))
            else Inr customEncoderSlice) of
        Inl pn \<Rightarrow> Inl pn
      | Inr selected \<Rightarrow> exclude_names allEncoderNames ex selected)"

text \<open>
  The environment of the second half: the block size, the hooks, the two constructors
  of header records (\<open>NewHeader\<close>, \<open>netcap.InitRecord\<close>), declared outside the sources at
  hand, and the outcome of the header write of each encoder.
\<close>

record ('p, 'm, 't, 'h) env =
  BlockSize :: nat
  run_hook :: "('p, 'm, 't, 'h) hooks"
  NewHeader :: "'t \<Rightarrow> Config \<Rightarrow> 'm"
  InitRecord :: "'t \<Rightarrow> 'm"
  header_io :: "('p, 'm, 't, 'h) CustomEncoder \<Rightarrow> go_error option"

text \<open>The body of the loop that initializes the encoders.\<close>

definition init_encoder ::
  "('p, 'm, 't, 'h) env \<Rightarrow> Config \<Rightarrow> ('p, 'm, 't, 'h) CustomEncoder
     \<Rightarrow> panic + ('p, 'm, 't, 'h) CustomEncoder" where
  "init_encoder env c e0 =
     (case Init (BlockSize env) e0 (Buffer c) (Compression c) (CSV c) (Out c) (WriteChan c) of
        Inl pn \<Rightarrow> Inl pn
      | Inr e1 \<Rightarrow>
          (case (case postinit e1 of
                   None \<Rightarrow> (None, e1)
                 | Some h \<Rightarrow> run_hook env h e1) of
             (Some err, e) \<Rightarrow> Inl (PanicErr err)
           | (None, e) \<Rightarrow>
               (if csv e then
                  (case csvWriter e of
                     None \<Rightarrow> Inl NilPointerDereference
                   | Some cwr \<Rightarrow>
                       (case WriteHeader (header_io env e) cwr (InitRecord env (Type e)) of
                          (Some err, cwr') \<Rightarrow> Inl (PanicErr err)
                        | (None, cwr') \<Rightarrow> Inr (e\<lparr>csvWriter := Some cwr'\<rparr>)))
                else
                  (case aWriter e of
                     None \<Rightarrow> Inl NilPointerDereference
                   | Some a \<Rightarrow>
                       (case PutProto (header_io env e) a (NewHeader env (Type e) c) of
                          (Some err, a') \<Rightarrow> Inl (PanicErr err)
                        | (None, a') \<Rightarrow> Inr (e\<lparr>aWriter := Some a'\<rparr>))))))"

fun init_encoders ::
  "('p, 'm, 't, 'h) env \<Rightarrow> Config \<Rightarrow> ('p, 'm, 't, 'h) CustomEncoder list
     \<Rightarrow> ('p, 'm, 't, 'h) CustomEncoder list \<Rightarrow> panic + ('p, 'm, 't, 'h) CustomEncoder list" where
  "init_encoders env c [] CustomEncoders = Inr CustomEncoders"
| "init_encoders env c (e # es) CustomEncoders =
     (case init_encoder env c e of
        Inl pn \<Rightarrow> Inl pn
      | Inr e' \<Rightarrow> init_encoders env c es (CustomEncoders @ [e']))"

text \<open>
  \<open>InitCustomEncoders\<close>: from the globals \<open>allEncoderNames\<close>, \<open>customEncoderSlice\<close> and
  \<open>CustomEncoders\<close> to the new value of \<open>CustomEncoders\<close>, or the panic. The final
  \<open>fmt.Println\<close> is left out.
\<close>

definition InitCustomEncoders ::
  "('p, 'm, 't, 'h) env \<Rightarrow> (string \<rightharpoonup> unit) \<Rightarrow> ('p, 'm, 't, 'h) CustomEncoder list
     \<Rightarrow> ('p, 'm, 't, 'h) CustomEncoder list \<Rightarrow> Config
     \<Rightarrow> panic + ('p, 'm, 't, 'h) CustomEncoder list" where
  "InitCustomEncoders env allEncoderNames customEncoderSlice CustomEncoders c =
     (case select_encoders allEncoderNames customEncoderSlice
             (strings_Split (IncludeEncoders c) CHR '','')
             (strings_Split (ExcludeEncoders c) CHR '','') of
        Inl pn \<Rightarrow> Inl pn
      | Inr selected \<Rightarrow> init_encoders env c selected CustomEncoders)"

subsection \<open>The text row of an IPv4 record\<close>

text \<open>
  \<open>types/ip4.go\<close>. The records \<open>IPv4\<close> and \<open>IPv4Option\<close> are generated code outside the
  sources at hand; their fields are the ones the two functions read.
  \<open>Options\<close> is a slice of pointers, any of which may be nil.
\<close>

text \<open>
  A \<open>float64\<close>: not a number, an infinity with its sign (\<open>True\<close> for negative), or a
  finite value given by its sign, mantissa \<open>m\<close> and binary exponent \<open>e\<close>, of magnitude
  \<open>m * 2 ^ e\<close>. Every IEEE double is one of these.
\<close>

datatype float64 = NaN | Inf bool | Finite bool nat int

record IPv4Option =
  OptionType :: "32 word"
  OptionLength :: "32 word"
  OptionData :: "8 word list"

record IPv4 =
  Timestamp :: string
  Version :: "32 word"
  IHL :: "32 word"
  TOS :: "32 word"
  Length :: "32 word"
  Id' :: "32 word"
  Flags :: "32 word"
  FragOffset :: "32 word"
  TTL :: "32 word"
  Protocol :: "32 word"
  Checksum :: "32 word"
  SrcIP :: string
  DstIP :: string
  Padding :: "8 word list"
  Options :: "IPv4Option option list"
  PayloadEntropy :: float64
  PayloadSize :: "32 word"

text \<open>
  What \<open>ip4.go\<close> uses and does not declare: the column selection \<open>filter\<close>, the
  formatters \<open>formatTimestamp\<close> and \<open>formatInt32\<close>, and the markers \<open>Begin\<close>,
  \<open>Separator\<close> and \<open>End\<close>.
\<close>

record csv_env =
  filter' :: "string list \<Rightarrow> string list"
  formatTimestamp :: "string \<Rightarrow> string"
  formatInt32 :: "32 word \<Rightarrow> string"
  Begin :: string
  Separator :: string
  End :: string

text \<open>
  \<open>hex.EncodeToString\<close> of the standard library: two digits of the table
  \<open>0123456789abcdef\<close> for each byte, the high nibble first.
\<close>

definition hextable :: string where
  "hextable = ''0123456789abcdef''"

fun hex_EncodeToString :: "8 word list \<Rightarrow> string" where
  "hex_EncodeToString [] = []"
| "hex_EncodeToString (v # src) =
     hextable ! unat (drop_bit 4 v) # hextable ! unat (and v 15) # hex_EncodeToString src"

text \<open>
  \<open>strconv.FormatFloat(x, 'f', prec, 64)\<close> of the standard library, for a precision
  that is not negative. A value that is not a number prints as \<open>NaN\<close>, an infinity as
  \<open>+Inf\<close> or \<open>-Inf\<close>. A finite value prints its sign when the sign bit is set, then its
  exact decimal expansion rounded to \<open>prec\<close> places, a tie going to the even digit:
  the integer part, and for a positive precision the point and exactly \<open>prec\<close> digits.
\<close>

fun decimal :: "nat \<Rightarrow> string" where
  "decimal n =
     (if n < 10 then [''0123456789'' ! n]
      else decimal (n div 10) @ [''0123456789'' ! (n mod 10)])"

text \<open>The last \<open>k\<close> decimal digits of a number, with leading zeros.\<close>

primrec pad_digits :: "nat \<Rightarrow> nat \<Rightarrow> string" where
  "pad_digits 0 n = []"
| "pad_digits (Suc k) n = pad_digits k (n div 10) @ [''0123456789'' ! (n mod 10)]"

definition round_half_even :: "nat \<Rightarrow> nat \<Rightarrow> nat" where
  "round_half_even num den =
     (let q = num div den; r = num mod den
      in if den < 2 * r \<or> (2 * r = den \<and> odd q) then q + 1 else q)"

text \<open>The magnitude \<open>m * 2 ^ e\<close> times \<open>10 ^ prec\<close>, rounded to a whole number.\<close>

definition scaled :: "nat \<Rightarrow> int \<Rightarrow> nat \<Rightarrow> nat" where
  "scaled m e prec =
     (if 0 \<le> e then m * 2 ^ nat e * 10 ^ prec
      else round_half_even (m * 10 ^ prec) (2 ^ nat (- e)))"

definition strconv_FormatFloat_f :: "float64 \<Rightarrow> nat \<Rightarrow> string" where
  "strconv_FormatFloat_f x prec =
     (case x of
        NaN \<Rightarrow> ''NaN''
      | Inf neg \<Rightarrow> (if neg then ''-Inf'' else ''+Inf'')
      | Finite neg m e \<Rightarrow>
          (let n = scaled m e prec
           in (if neg then ''-'' else [])
              @ decimal (n div 10 ^ prec)
              @ (if 0 < prec then CHR ''.'' # pad_digits prec (n mod 10 ^ prec) else [])))"

text \<open>\<open>strings.Join\<close> of the standard library.\<close>

fun strings_Join :: "string list \<Rightarrow> string \<Rightarrow> string" where
  "strings_Join [] sep = []"
| "strings_Join [x] sep = x"
| "strings_Join (x # y # ys) sep = x @ sep @ strings_Join (y # ys) sep"

definition ToString :: "csv_env \<Rightarrow> IPv4Option \<Rightarrow> string" where
  "ToString env i =
     Begin env @ formatInt32 env (OptionType i) @ Separator env
       @ formatInt32 env (OptionLength i) @ Separator env
       @ hex_EncodeToString (OptionData i) @ End env"

text \<open>
  The loop of \<open>CSVRecord\<close> over the options. \<open>ToString\<close> has a value receiver, so the
  call through a nil pointer panics.
\<close>

fun collect_opts :: "csv_env \<Rightarrow> IPv4Option option list \<Rightarrow> string list \<Rightarrow> panic + string list" where
  "collect_opts env [] opts = Inr opts"
| "collect_opts env (None # os) opts = Inl NilPointerDereference"
| "collect_opts env (Some o' # os) opts = collect_opts env os (opts @ [ToString env o'])"

definition CSVHeader :: "csv_env \<Rightarrow> string list" where
  "CSVHeader env = filter' env
     [''Timestamp'', ''Version'', ''IHL'', ''TOS'', ''Length'', ''Id'', ''Flags'',
      ''FragOffset'', ''TTL'', ''Protocol'', ''Checksum'', ''SrcIP'', ''DstIP'',
      ''Padding'', ''Options'', ''PayloadEntropy'', ''PayloadSize'']"

definition CSVRecord :: "csv_env \<Rightarrow> IPv4 \<Rightarrow> panic + string list" where
  "CSVRecord env i =
     (case collect_opts env (Options i) [] of
        Inl pn \<Rightarrow> Inl pn
      | Inr opts \<Rightarrow> Inr (filter' env
          [formatTimestamp env (Timestamp i),
           formatInt32 env (Version i),
           formatInt32 env (IHL i),
           formatInt32 env (TOS i),
           formatInt32 env (Length i),
           formatInt32 env (Id' i),
           formatInt32 env (Flags i),
           formatInt32 env (FragOffset i),
           formatInt32 env (TTL i),
           formatInt32 env (Protocol i),
           formatInt32 env (Checksum i),
           SrcIP i,
           DstIP i,
           hex_EncodeToString (Padding i),
           strings_Join opts [],
           strconv_FormatFloat_f (PayloadEntropy i) 6,
           formatInt32 env (PayloadSize i)]))"

definition NetcapTimestamp :: "IPv4 \<Rightarrow> string" where
  "NetcapTimestamp i = Timestamp i"

subsection \<open>The rules of the specification, in closed form\<close>

text \<open>
  The extension of the output file, by the modes \<open>csv\<close> and \<open>compress\<close> (section 4.1).
\<close>

definition extension :: "bool \<Rightarrow> bool \<Rightarrow> string" where
  "extension cs c =
     (if cs then (if c then ''.csv.gz'' else ''.csv'')
      else (if c then ''.ncap.gz'' else ''.ncap''))"

text \<open>
  The writer chain of section 4.1 over a sink: the buffered writer when buffering is on,
  then the compressing writer when compression is on; a layer that is off is skipped.
\<close>

definition writer_stack :: "nat \<Rightarrow> io_Writer \<Rightarrow> bool \<Rightarrow> bool \<Rightarrow> io_Writer" where
  "writer_stack bs sink b c =
     (let buffered = (if b then bufio_NewWriterSize sink bs else sink)
      in if c then gzip_NewWriter buffered else buffered)"

text \<open>The first name of a list that is not empty and not a known encoder name.\<close>

fun first_unknown :: "(string \<rightharpoonup> unit) \<Rightarrow> string list \<Rightarrow> string option" where
  "first_unknown known [] = None"
| "first_unknown known (name # names) =
     (if name \<noteq> [] \<and> known name = None then Some name
      else first_unknown known names)"

text \<open>A catalogue without its first entry of a given name.\<close>

definition remove_first ::
  "string \<Rightarrow> ('p, 'm, 't, 'h) CustomEncoder list \<Rightarrow> ('p, 'm, 't, 'h) CustomEncoder list" where
  "remove_first name catalogue =
     takeWhile (\<lambda>e. Name e \<noteq> name) catalogue
       @ drop 1 (dropWhile (\<lambda>e. Name e \<noteq> name) catalogue)"

text \<open>
  The active set as section 8 words it: the catalogue filtered by the include list, or
  the whole catalogue when the include list is empty or a single empty string, minus
  the first match of each exclude name.
\<close>

definition active_set_as_claimed ::
  "('p, 'm, 't, 'h) CustomEncoder list \<Rightarrow> string list \<Rightarrow> string list
     \<Rightarrow> ('p, 'm, 't, 'h) CustomEncoder list" where
  "active_set_as_claimed catalogue ins exs =
     fold remove_first exs
       (if ins = [] \<or> ins = [[]] then catalogue
        else filter (\<lambda>e. Name e \<in> set ins) catalogue)"

text \<open>
  The active set as the code computes it: the include filter applies when the first
  item of the include list is not empty, empty names are passed over, and only the
  names that are looked at are validated.
\<close>

definition active_set_rule ::
  "(string \<rightharpoonup> unit) \<Rightarrow> ('p, 'm, 't, 'h) CustomEncoder list \<Rightarrow> string list \<Rightarrow> string list
     \<Rightarrow> panic + ('p, 'm, 't, 'h) CustomEncoder list" where
  "active_set_rule known catalogue ins exs =
     (let filtering = (ins \<noteq> [] \<and> hd ins \<noteq> []) in
      case (if filtering then first_unknown known ins else None) of
        Some n \<Rightarrow> Inl (InvalidEncoder n)
      | None \<Rightarrow>
          (case first_unknown known exs of
             Some n \<Rightarrow> Inl (InvalidEncoder n)
           | None \<Rightarrow>
               Inr (fold remove_first (filter (\<lambda>n. n \<noteq> []) exs)
                     (if filtering
                      then filter (\<lambda>e. Name e \<noteq> [] \<and> Name e \<in> set ins) catalogue
                      else catalogue))))"

subsection \<open>Sample values\<close>

text \<open>
  Concrete encoders, hooks and environments on which the theorems below are run:
  packets and record types are numbers, records and hook names are strings.
\<close>

definition sample_handler :: "nat \<Rightarrow> string option" where
  "sample_handler p = (if p = 0 then None else Some ''record'')"

definition sample_hooks :: "(nat, string, nat, string) hooks" where
  "sample_hooks h e = (if h = ''fail'' then (Some ''hook failed'', e) else (None, e))"

definition sample_encoder :: "(nat, string, nat, string) CustomEncoder" where
  "sample_encoder = CreateCustomEncoder 1 ''TLS'' None (Some sample_handler) (Some ''flush'')"

definition sample_closeFile :: "string \<Rightarrow> os_File option \<Rightarrow> string \<Rightarrow> string \<times> 64 word" where
  "sample_closeFile dir f name =
     (case f of None \<Rightarrow> ([], 0) | Some (CreateFile pth ext) \<Rightarrow> (name @ ext, 4096))"

definition sample_env :: "(nat, string, nat, string) env" where
  "sample_env = \<lparr>BlockSize = 4096, run_hook = sample_hooks,
     NewHeader = (\<lambda>t c. ''header''), InitRecord = (\<lambda>t. ''fields''),
     header_io = (\<lambda>e. None)\<rparr>"

definition sample_csv_config :: Config where
  "sample_csv_config = \<lparr>IncludeEncoders = [], ExcludeEncoders = [], Buffer = False,
     Compression = True, CSV = True, Out = ''out'', WriteChan = False\<rparr>"

text \<open>The sample encoder as the registry leaves it under \<open>sample_csv_config\<close>.\<close>

definition sample_csv_encoder :: "(nat, string, nat, string) CustomEncoder" where
  "sample_csv_encoder =
     (let f = Some (CreateFile (filepath_Join ''out'' ''TLS'') ''.csv.gz'');
          gw = gzip_NewWriter (FileW f)
      in sample_encoder\<lparr>file' := f, gWriter := Some gw,
           csvWriter := Some \<lparr>csv_w = gw, lines = [HeaderRow ''fields'']\<rparr>,
           compress := True, csv := True, out := ''out''\<rparr>)"

definition named :: "string \<Rightarrow> (nat, string, nat, string) CustomEncoder" where
  "named n = CreateCustomEncoder 0 n None None None"

definition sample_catalogue :: "(nat, string, nat, string) CustomEncoder list" where
  "sample_catalogue = [named ''TLS'', named ''HTTP'', named ''Flow'']"

text \<open>
  A sample environment for the text rows: every column is kept, numbers are printed in
  decimal, and the markers are \<open>(\<close>, \<open>-\<close> and \<open>)\<close>. The sample record has the entropy
  3.25, that is \<open>13 * 2 ^ -2\<close>.
\<close>

definition sample_csv_env :: csv_env where
  "sample_csv_env =
     \<lparr>filter' = (\<lambda>fields. fields),
      formatTimestamp = (\<lambda>t. t),
      formatInt32 = (\<lambda>v. if sint v < 0 then CHR ''-'' # decimal (nat (- sint v))
                           else decimal (nat (sint v))),
      Begin = ''('', Separator = ''-'', End = '')''\<rparr>"

definition sample_ip :: IPv4 where
  "sample_ip =
     \<lparr>Timestamp = ''1546300800.000000'', Version = 4, IHL = 7, TOS = 0, Length = 60,
      Id' = 291, Flags = 2, FragOffset = 0, TTL = 64, Protocol = 6, Checksum = 4660,
      SrcIP = ''10.0.0.1'', DstIP = ''10.0.0.2'', Padding = [0, 171],
      Options = [Some \<lparr>OptionType = 7, OptionLength = 4, OptionData = [1, 255]\<rparr>,
                 Some \<lparr>OptionType = 1, OptionLength = 1, OptionData = []\<rparr>],
      PayloadEntropy = Finite False 13 (- 2), PayloadSize = 20\<rparr>"

section \<open>Properties\<close>

subsection \<open>Helper facts\<close>

lemmas sample_defs = sample_handler_def sample_hooks_def sample_encoder_def sample_closeFile_def
  sample_env_def sample_csv_config_def CreateCustomEncoder_def

lemma sint_succ: "sint (x :: 64 word) \<noteq> 2 ^ 63 - 1 \<Longrightarrow> sint (x + 1) = sint x + 1"
proof -
  assume ne: "sint x \<noteq> 2 ^ 63 - 1"
  have lo: "- (2 ^ 63) \<le> sint x" using sint_ge [of x] by simp
  have hi: "sint x < 2 ^ 63" using sint_lt [of x] by simp
  have "sint (x + 1) = signed_take_bit 63 (sint x + 1)"
    by (simp add: sint_word_ariths)
  also have "\<dots> = sint x + 1"
    using lo hi ne by (intro signed_take_bit_int_eq_self) auto
  finally show ?thesis .
qed

lemma Encode_nil_result: "Handler e = Some h \<Longrightarrow> h p = None \<Longrightarrow> Encode io e p = (Inr None, e)"
  by (simp add: Encode_def)

lemma Encode_written:
  "Handler e = Some h \<Longrightarrow> h p = Some r \<Longrightarrow> aWriter e = Some a \<Longrightarrow>
     Encode None e p =
       (Inr None, e\<lparr>numRecords := numRecords e + 1,
                       aWriter := Some (a\<lparr>frames := frames a @ [r]\<rparr>)\<rparr>)"
  by (simp add: Encode_def PutProto_def)

lemma sample_init_file:
  "Init 4096 sample_encoder False False False ''out'' False =
     Inr (sample_encoder\<lparr>out := ''out'',
            file' := Some (CreateFile (filepath_Join ''out'' ''TLS'') ''.ncap''),
            dWriter := Some (delimited_NewWriter
              (FileW (Some (CreateFile (filepath_Join ''out'' ''TLS'') ''.ncap'')))),
            aWriter := Some \<lparr>adw_w = Some (delimited_NewWriter
              (FileW (Some (CreateFile (filepath_Join ''out'' ''TLS'') ''.ncap'')))),
              frames = []\<rparr>\<rparr>)"
  by (simp add: sample_defs Init_def NewAtomicDelimitedWriter_def)

lemma sample_init_csv:
  "InitCustomEncoders sample_env (init [sample_encoder] []) [sample_encoder] [] sample_csv_config
     = Inr [sample_csv_encoder]"
  by (simp add: sample_defs sample_csv_encoder_def InitCustomEncoders_def select_encoders_def
      init_encoder_def Init_def NewCSVWriter_def WriteHeader_def Let_def)

subsection \<open>Encode\<close>

text \<open>
  Claim C1. When the handler returns a record and the frame write succeeds, \<open>Encode\<close>
  returns nil, the atomic delimited writer holds exactly one more frame (the record)
  and the counter is one higher, as an \<open>int64\<close> and, below the largest \<open>int64\<close>, as a
  number; nothing else of the encoder changes. When the handler returns nil, \<open>Encode\<close>
  returns nil and the encoder is unchanged, whatever a write would have done.
\<close>

theorem Encode_one_frame_one_count:
  assumes "Handler e = Some h"
  shows "(h p = None \<longrightarrow> Encode io e p = (Inr None, e)) \<and>
     (\<forall>r a. h p = Some r \<and> aWriter e = Some a \<longrightarrow>
        Encode None e p =
          (Inr None, e\<lparr>numRecords := numRecords e + 1,
                          aWriter := Some (a\<lparr>frames := frames a @ [r]\<rparr>)\<rparr>) \<and>
        NumRecords (snd (Encode None e p)) = NumRecords e + 1 \<and>
        (sint (NumRecords e) \<noteq> 2 ^ 63 - 1 \<longrightarrow>
           sint (NumRecords (snd (Encode None e p))) = sint (NumRecords e) + 1))"
proof (intro conjI allI impI)
  assume "h p = None"
  with assms show "Encode io e p = (Inr None, e)" by (rule Encode_nil_result)
next
  fix r a
  assume ra: "h p = Some r \<and> aWriter e = Some a"
  with assms show enc: "Encode None e p =
      (Inr None, e\<lparr>numRecords := numRecords e + 1,
                      aWriter := Some (a\<lparr>frames := frames a @ [r]\<rparr>)\<rparr>)"
    by (simp add: Encode_written)
  then show "NumRecords (snd (Encode None e p)) = NumRecords e + 1"
    by (simp add: NumRecords_def)
  assume "sint (NumRecords e) \<noteq> 2 ^ 63 - 1"
  then show "sint (NumRecords (snd (Encode None e p))) = sint (NumRecords e) + 1"
    using enc by (simp add: NumRecords_def sint_succ)
qed

theorem Encode_one_frame_one_count_witness:
  "Encode None sample_encoder 0 = (Inr None, sample_encoder) \<and>
   (case Init 4096 sample_encoder False False False ''out'' False of
      Inl pn \<Rightarrow> False
    | Inr e \<Rightarrow>
        sample_handler 7 = Some ''record'' \<and>
        fst (Encode None e 7) = Inr None \<and>
        NumRecords e = 0 \<and>
        NumRecords (snd (Encode None e 7)) = 1 \<and>
        map_option frames (aWriter e) = Some [] \<and>
        map_option frames (aWriter (snd (Encode None e 7))) = Some [''record''])"
  using Encode_one_frame_one_count [of sample_encoder sample_handler 0 None]
    Encode_one_frame_one_count
      [of "projr (Init 4096 sample_encoder False False False ''out'' False)" sample_handler 7 None]
  by (simp add: sample_init_file NumRecords_def) (simp add: sample_defs)

text \<open>
  Claim C2, as amended. For a packet whose handler returns a record, the counter is
  incremented before the frame write is attempted: whatever the write does, the
  counter is one higher after \<open>Encode\<close>. When the write returns an error, \<open>Encode\<close>
  returns that error, no frame has been added, and the counter has counted the record.
\<close>

theorem Encode_counts_before_write:
  assumes "Handler e = Some h" and "h p = Some r"
  shows "NumRecords (snd (Encode io e p)) = NumRecords e + 1 \<and>
     (\<forall>a err. aWriter e = Some a \<longrightarrow>
        Encode (Some err) e p = (Inr (Some err), e\<lparr>numRecords := numRecords e + 1\<rparr>))"
  using assms
  by (auto simp add: Encode_def PutProto_def NumRecords_def Let_def
      split: option.splits prod.splits)

theorem Encode_counts_before_write_witness:
  "(case Init 4096 sample_encoder False False False ''out'' False of
      Inl pn \<Rightarrow> False
    | Inr e \<Rightarrow>
        sample_handler 7 = Some ''record'' \<and>
        Encode (Some ''disk full'') e 7 = (Inr (Some ''disk full''), e\<lparr>numRecords := 1\<rparr>))"
  using Encode_counts_before_write
      [of "projr (Init 4096 sample_encoder False False False ''out'' False)" sample_handler 7
        "''record''"]
  by (simp add: sample_init_file NumRecords_def) (simp add: sample_defs)

text \<open>
  The claim as stated fails: on the sample encoder, initialized to write a plain file,
  a write that fails with \<open>disk full\<close> makes \<open>Encode\<close> return the error, and the counter
  has gone from 0 to 1.
\<close>

theorem Encode_failed_write_counted:
  "(case Init 4096 sample_encoder False False False ''out'' False of
      Inl pn \<Rightarrow> False
    | Inr e \<Rightarrow>
        fst (Encode (Some ''disk full'') e 7) = Inr (Some ''disk full'') \<and>
        NumRecords e = 0 \<and>
        NumRecords (snd (Encode (Some ''disk full'') e 7)) = 1)"
  by (simp add: sample_init_file NumRecords_def)
    (simp add: sample_defs Encode_def PutProto_def)

text \<open>
  Claim C4. The file of an encoder initialized with \<open>csv\<close> and \<open>compress\<close> is named
  with the extension \<open>.csv.gz\<close>, but \<open>Encode\<close> writes no row: \<open>Init\<close> with \<open>csv\<close> leaves
  \<open>aWriter\<close> as it was (nil on a new encoder), \<open>Encode\<close> never touches \<open>csvWriter\<close>, and
  with a nil \<open>aWriter\<close> a record from the handler ends in a nil dereference after the
  counter has been incremented.
\<close>

theorem Encode_csv_no_row:
  "(Init bs e0 b c True ou wc = Inr e1 \<longrightarrow>
      aWriter e1 = aWriter e0 \<and>
      file' e1 = Some (CreateFile (filepath_Join ou (Name e0)) (if c then ''.csv.gz'' else ''.csv''))) \<and>
   csvWriter (snd (Encode io e p)) = csvWriter e \<and>
   (Handler e = Some h \<and> h p = Some r \<and> aWriter e = None \<longrightarrow>
      Encode io e p = (Inl NilPointerDereference, e\<lparr>numRecords := numRecords e + 1\<rparr>))"
  by (auto simp add: Init_def Encode_def PutProto_def Let_def split: if_splits option.splits)

theorem Encode_csv_no_row_witness:
  "InitCustomEncoders sample_env (init [sample_encoder] []) [sample_encoder] [] sample_csv_config
     = Inr [sample_csv_encoder] \<and>
   file' sample_csv_encoder = Some (CreateFile (filepath_Join ''out'' ''TLS'') ''.csv.gz'') \<and>
   map_option lines (csvWriter sample_csv_encoder) = Some [HeaderRow ''fields''] \<and>
   sample_handler 7 = Some ''record'' \<and>
   fst (Encode None sample_csv_encoder 7) = Inl NilPointerDereference \<and>
   map_option lines (csvWriter (snd (Encode None sample_csv_encoder 7)))
     = Some [HeaderRow ''fields'']"
  using Encode_csv_no_row [of 4096 sample_encoder False True "''out''" False
      "projr (Init 4096 sample_encoder False True True ''out'' False)"
      None sample_csv_encoder 7 sample_handler "''record''"] sample_init_csv
  by (simp add: sample_defs sample_csv_encoder_def Let_def)

subsection \<open>Init\<close>

lemma Init_csv_result:
  "\<exists>e'. Init bs e b c True ou wc = Inr e' \<and>
     cWriter e' = cWriter e \<and> dWriter e' = dWriter e \<and> aWriter e' = aWriter e \<and>
     file' e' = Some (CreateFile (filepath_Join ou (Name e)) (if c then ''.csv.gz'' else ''.csv''))"
  by (simp add: Init_def Let_def)

lemma Init_panics_iff: "isl (Init bs e b c cs ou wc) = (\<not> cs \<and> wc \<and> (b \<or> c))"
  by (auto simp add: Init_def Let_def)

text \<open>
  Claim C5, as amended. \<open>Init\<close> panics exactly when \<open>csv\<close> is off and channel mode is
  combined with buffering or compression, and the panic is the one of the conflict
  check. Every other combination is accepted, among them every combination with
  \<open>csv\<close> on.
\<close>

theorem Init_rejects_exactly:
  "isl (Init bs e b c cs ou wc) = (\<not> cs \<and> wc \<and> (b \<or> c)) \<and>
   (Init bs e b c cs ou wc =
      Inl (Panic ''buffering or compression cannot be activated when running using writeChan''))
     = (\<not> cs \<and> wc \<and> (b \<or> c))"
  by (auto simp add: Init_def Let_def)

theorem Init_rejects_exactly_witness:
  "isl (Init 4096 sample_encoder True False False ''out'' True) \<and>
   Init 4096 sample_encoder False True False ''out'' True =
     Inl (Panic ''buffering or compression cannot be activated when running using writeChan'') \<and>
   \<not> isl (Init 4096 sample_encoder False False False ''out'' True) \<and>
   \<not> isl (Init 4096 sample_encoder True True False ''out'' False)"
  using Init_rejects_exactly [of 4096 sample_encoder True False False "''out''" True]
    Init_rejects_exactly [of 4096 sample_encoder False True False "''out''" True]
    Init_rejects_exactly [of 4096 sample_encoder False False False "''out''" True]
    Init_rejects_exactly [of 4096 sample_encoder True True False "''out''" False]
  by simp

text \<open>
  The claim as stated fails: with \<open>csv\<close> on, channel mode together with buffering and
  compression is accepted.
\<close>

theorem Init_csv_channel_buffer_accepted:
  "\<not> isl (Init 4096 sample_encoder True True True ''out'' True)"
  by (simp add: Init_panics_iff)

text \<open>
  Claim C6, as amended. When \<open>Init\<close> accepts a configuration that writes a file (\<open>csv\<close>
  on, or channel mode off), the file is the output directory joined with the encoder
  name plus the extension of the mode; the buffered writer, when on, wraps the file with
  the block size; the compressing writer, when on, wraps the buffered writer or else the
  file; and the framer, or with \<open>csv\<close> the csv writer, wraps the top of that chain. The
  fields of the layers that are off keep their values. In channel mode (\<open>csv\<close> off) no
  file is opened: buffering and compression are off and the framer wraps the new channel
  writer.
\<close>

theorem Init_writer_stack:
  assumes "Init bs e b c cs ou wc = Inr e'"
  shows "(cs \<or> \<not> wc \<longrightarrow>
           (let f = Some (CreateFile (filepath_Join ou (Name e)) (extension cs c));
                top = writer_stack bs (FileW f) b c
            in file' e' = f \<and> cWriter e' = cWriter e \<and>
               bWriter e' = (if b then Some (bufio_NewWriterSize (FileW f) bs) else bWriter e) \<and>
               gWriter e' = (if c then Some top else gWriter e) \<and>
               (if cs then csvWriter e' = Some (NewCSVWriter top) \<and>
                           dWriter e' = dWriter e \<and> aWriter e' = aWriter e
                else dWriter e' = Some (delimited_NewWriter top) \<and>
                     aWriter e' = Some (NewAtomicDelimitedWriter (Some (delimited_NewWriter top))) \<and>
                     csvWriter e' = csvWriter e))) \<and>
         (\<not> cs \<and> wc \<longrightarrow>
            \<not> b \<and> \<not> c \<and> file' e' = file' e \<and> cWriter e' = Some newChanWriter \<and>
            bWriter e' = bWriter e \<and> gWriter e' = gWriter e \<and> csvWriter e' = csvWriter e \<and>
            dWriter e' = Some (delimited_NewWriter (ChanW (Some newChanWriter))) \<and>
            aWriter e' = Some (NewAtomicDelimitedWriter
                                (Some (delimited_NewWriter (ChanW (Some newChanWriter)))))) \<and>
         Name e' = Name e \<and> out e' = ou \<and> buffer e' = b \<and> compress e' = c \<and> csv e' = cs \<and>
         numRecords e' = numRecords e"
  using assms
  by (auto simp add: Init_def Let_def extension_def writer_stack_def split: if_splits)

theorem Init_writer_stack_witness:
  "(case Init 4096 sample_encoder True True False ''out'' False of
      Inl pn \<Rightarrow> False
    | Inr e \<Rightarrow>
        (let f = Some (CreateFile (filepath_Join ''out'' ''TLS'') ''.ncap.gz'');
             bw = bufio_NewWriterSize (FileW f) 4096;
             gw = gzip_NewWriter bw
         in file' e = f \<and> bWriter e = Some bw \<and> gWriter e = Some gw \<and>
            dWriter e = Some (delimited_NewWriter gw) \<and> csvWriter e = None)) \<and>
   (case Init 4096 sample_encoder False True True ''out'' True of
      Inl pn \<Rightarrow> False
    | Inr e \<Rightarrow>
        (let f = Some (CreateFile (filepath_Join ''out'' ''TLS'') ''.csv.gz'');
             gw = gzip_NewWriter (FileW f)
         in file' e = f \<and> bWriter e = None \<and> gWriter e = Some gw \<and>
            map_option csv_w (csvWriter e) = Some gw \<and> dWriter e = None))"
  using Init_writer_stack [of 4096 sample_encoder True True False "''out''" False
      "projr (Init 4096 sample_encoder True True False ''out'' False)"]
    Init_writer_stack [of 4096 sample_encoder False True True "''out''" True
      "projr (Init 4096 sample_encoder False True True ''out'' True)"]
  by (simp add: Init_def Let_def sample_defs NewCSVWriter_def)

text \<open>
  The claim as stated fails: channel mode without buffering and compression is
  accepted, and then the encoder has no output file at all; the framer sits on the
  channel writer.
\<close>

theorem Init_channel_mode_no_file:
  "(case Init 4096 sample_encoder False False False ''out'' True of
      Inl pn \<Rightarrow> False
    | Inr e \<Rightarrow>
        file' e = None \<and>
        dWriter e = Some (delimited_NewWriter (ChanW (Some newChanWriter))))"
  by (simp add: Init_def Let_def sample_defs)

text \<open>
  Claim C9. With \<open>csv\<close> on, \<open>Init\<close> does not depend on \<open>writeChan\<close>: it never panics,
  it opens the file with the extension \<open>.csv\<close> or \<open>.csv.gz\<close>, and it leaves the channel
  writer, the framer and the atomic writer as they were.
\<close>

theorem Init_csv_ignores_writeChan:
  "Init bs e b c True ou wc = Init bs e b c True ou (\<not> wc) \<and>
   \<not> isl (Init bs e b c True ou wc) \<and>
   (\<exists>e'. Init bs e b c True ou wc = Inr e' \<and>
      cWriter e' = cWriter e \<and> dWriter e' = dWriter e \<and> aWriter e' = aWriter e \<and>
      file' e' = Some (CreateFile (filepath_Join ou (Name e)) (if c then ''.csv.gz'' else ''.csv'')))"
proof (intro conjI)
  show "Init bs e b c True ou wc = Init bs e b c True ou (\<not> wc)"
    by (simp add: Init_def)
  show "\<not> isl (Init bs e b c True ou wc)"
    by (simp add: Init_panics_iff)
  show "\<exists>e'. Init bs e b c True ou wc = Inr e' \<and>
      cWriter e' = cWriter e \<and> dWriter e' = dWriter e \<and> aWriter e' = aWriter e \<and>
      file' e' = Some (CreateFile (filepath_Join ou (Name e)) (if c then ''.csv.gz'' else ''.csv''))"
    by (rule Init_csv_result)
qed

theorem Init_csv_ignores_writeChan_witness:
  "Init 4096 sample_encoder True True True ''out'' True
     = Init 4096 sample_encoder True True True ''out'' False \<and>
   (case Init 4096 sample_encoder True True True ''out'' True of
      Inl pn \<Rightarrow> False
    | Inr e \<Rightarrow> cWriter e = None \<and>
        file' e = Some (CreateFile (filepath_Join ''out'' ''TLS'') ''.csv.gz''))"
  using Init_csv_ignores_writeChan [of 4096 sample_encoder True True "''out''" True]
  by (simp add: Init_def Let_def sample_defs)

subsection \<open>GetChan\<close>

text \<open>
  Claim C10. On an encoder whose channel writer is nil, \<open>GetChan\<close> is a nil
  dereference. After \<open>Init\<close> on such an encoder, \<open>GetChan\<close> returns the channel of the
  new channel writer when \<open>writeChan\<close> was on and \<open>csv\<close> off, and is a nil dereference
  in every other accepted configuration.
\<close>

theorem GetChan_after_Init:
  assumes "cWriter e = None" and "Init bs e b c cs ou wc = Inr e'"
  shows "GetChan e = Inl NilPointerDereference \<and>
     GetChan e' = (if wc \<and> \<not> cs then Inr (Chan newChanWriter) else Inl NilPointerDereference)"
  using assms by (auto simp add: Init_def Let_def GetChan_def split: if_splits)

theorem GetChan_after_Init_witness:
  "GetChan sample_encoder = Inl NilPointerDereference \<and>
   (case Init 4096 sample_encoder False False False ''out'' True of
      Inl pn \<Rightarrow> False | Inr e \<Rightarrow> GetChan e = Inr (Chan newChanWriter)) \<and>
   (case Init 4096 sample_encoder False False False ''out'' False of
      Inl pn \<Rightarrow> False | Inr e \<Rightarrow> GetChan e = Inl NilPointerDereference) \<and>
   (case Init 4096 sample_encoder False False True ''out'' True of
      Inl pn \<Rightarrow> False | Inr e \<Rightarrow> GetChan e = Inl NilPointerDereference)"
  using GetChan_after_Init [of sample_encoder 4096 False False False "''out''" True
      "projr (Init 4096 sample_encoder False False False ''out'' True)"]
    GetChan_after_Init [of sample_encoder 4096 False False False "''out''" False
      "projr (Init 4096 sample_encoder False False False ''out'' False)"]
    GetChan_after_Init [of sample_encoder 4096 False False True "''out''" True
      "projr (Init 4096 sample_encoder False False True ''out'' True)"]
  by (simp add: sample_defs Init_def)

subsection \<open>Destroy\<close>

text \<open>
  Claim C7. \<open>Destroy\<close> runs the deinit hook when one is set, and panics with its error
  when it fails, having done nothing else. Otherwise it goes on, reading the encoder
  as the hook left it: it closes the compressor when \<open>compress\<close> is on, then flushes
  the buffered writer when \<open>buffer\<close> is on, then closes the file, in that order and
  with nothing for a layer that is off, and it returns what closing the file returns:
  the name and the size.
\<close>

theorem Destroy_order:
  "Destroy run cf e =
     (let (err, e1) = (case deinit e of None \<Rightarrow> (None, e) | Some h \<Rightarrow> run h e);
          hook = (case deinit e of None \<Rightarrow> [] | Some h \<Rightarrow> [RunDeinit h])
      in case err of
           Some er \<Rightarrow> (Inl (PanicErr er), e1, hook)
         | None \<Rightarrow>
             (Inr (cf (out e1) (file' e1) (Name e1)), e1,
              hook
              @ (if compress e1 then [CloseGzipWriters (gWriter e1)] else [])
              @ (if buffer e1 then [FlushWriters (bWriter e1)] else [])
              @ [CloseFile (out e1) (file' e1) (Name e1)]))"
  by (auto simp add: Destroy_def Let_def split: option.splits prod.splits)

theorem Destroy_order_witness:
  "(case Init 4096 sample_encoder True True False ''out'' False of
      Inl pn \<Rightarrow> False
    | Inr e \<Rightarrow>
        (let f = Some (CreateFile (filepath_Join ''out'' ''TLS'') ''.ncap.gz'');
             bw = bufio_NewWriterSize (FileW f) 4096 in
         Destroy sample_hooks sample_closeFile e =
           (Inr (''TLS.ncap.gz'', 4096), e,
            [RunDeinit ''flush'', CloseGzipWriters (Some (gzip_NewWriter bw)),
             FlushWriters (Some bw), CloseFile ''out'' f ''TLS'']) \<and>
         Destroy sample_hooks sample_closeFile (e\<lparr>deinit := Some ''fail''\<rparr>) =
           (Inl (PanicErr ''hook failed''), e\<lparr>deinit := Some ''fail''\<rparr>, [RunDeinit ''fail'']))) \<and>
   (case Init 4096 sample_encoder False False False ''out'' False of
      Inl pn \<Rightarrow> False
    | Inr e \<Rightarrow>
        Destroy sample_hooks sample_closeFile (e\<lparr>deinit := None\<rparr>) =
          (Inr (''TLS.ncap'', 4096), e\<lparr>deinit := None\<rparr>,
           [CloseFile ''out'' (Some (CreateFile (filepath_Join ''out'' ''TLS'') ''.ncap'')) ''TLS'']))"
  using Destroy_order [of sample_hooks sample_closeFile
      "projr (Init 4096 sample_encoder True True False ''out'' False)"]
    Destroy_order [of sample_hooks sample_closeFile
      "(projr (Init 4096 sample_encoder True True False ''out'' False))\<lparr>deinit := Some ''fail''\<rparr>"]
    Destroy_order [of sample_hooks sample_closeFile
      "(projr (Init 4096 sample_encoder False False False ''out'' False))\<lparr>deinit := None\<rparr>"]
  by (simp add: sample_defs Init_def Let_def NewAtomicDelimitedWriter_def)

subsection \<open>The selection of InitCustomEncoders\<close>

lemma strings_Split_nonempty: "strings_Split s sep \<noteq> []"
  by (induction s) (auto split: list.splits)

lemma remove_named_first: "remove_named n cs = remove_first n cs"
  by (induction cs) (auto simp add: remove_first_def)

lemma include_names_closed:
  "include_names known ns m =
     (case first_unknown known ns of
        Some n \<Rightarrow> Inl (InvalidEncoder n)
      | None \<Rightarrow> Inr (\<lambda>k. if k \<noteq> [] \<and> k \<in> set ns then Some True else m k))"
  by (induction ns arbitrary: m) (auto simp add: fun_eq_iff split: option.splits)

lemma fold_selection:
  "fold (\<lambda>e selection. if m (Name e) = None then selection else selection @ [e]) cs acc
     = acc @ filter (\<lambda>e. m (Name e) \<noteq> None) cs"
  by (induction cs arbitrary: acc) auto

lemma collect_selection_filter:
  "collect_selection m cs = filter (\<lambda>e. m (Name e) \<noteq> None) cs"
  by (simp add: collect_selection_def fold_selection)

lemma exclude_names_closed:
  "exclude_names known ns cs =
     (case first_unknown known ns of
        Some n \<Rightarrow> Inl (InvalidEncoder n)
      | None \<Rightarrow> Inr (fold remove_first (filter (\<lambda>n. n \<noteq> []) ns) cs))"
proof (induction ns arbitrary: cs)
  case Nil
  show ?case by simp
next
  case (Cons n ns)
  show ?case
    by (simp add: Cons.IH remove_named_first split: option.splits)
qed

lemma select_encoders_closed:
  "select_encoders known cs ins exs = active_set_rule known cs ins exs"
proof (cases "ins \<noteq> [] \<and> hd ins \<noteq> []")
  case True
  then have guard: "length ins > 0 \<and> ins ! 0 \<noteq> []"
    by (cases ins) auto
  have sel: "filter (\<lambda>e. (if Name e \<noteq> [] \<and> Name e \<in> set ins then Some True
                          else Map.empty (Name e)) \<noteq> None) cs
      = filter (\<lambda>e. Name e \<noteq> [] \<and> Name e \<in> set ins) cs"
    by (rule filter_cong) auto
  show ?thesis
    using True guard
    by (simp add: select_encoders_def active_set_rule_def include_names_closed
        collect_selection_filter exclude_names_closed sel del: not_None_eq split: option.splits)
next
  case False
  then have guard: "\<not> (length ins > 0 \<and> ins ! 0 \<noteq> [])"
    by (cases ins) auto
  show ?thesis
    using False guard
    by (auto simp add: select_encoders_def active_set_rule_def exclude_names_closed Let_def
        split: option.splits)
qed

text \<open>
  Claim C3, as amended. The selection of \<open>InitCustomEncoders\<close> is the rule
  \<open>active_set_rule\<close>: when the first item of the include list is not empty, the
  catalogue is filtered, in its own order, to the non-empty names of the include list,
  and the first of these names that is not a known encoder name is fatal; when the
  first item is empty the whole catalogue stays and no include name is validated.
  Then the first non-empty exclude name that is not known is fatal, and otherwise the
  first match of each non-empty exclude name is removed, in the order of the list.
  The lists come from splitting the two configuration strings at commas, which never
  gives an empty list, and the selected encoders are the ones that are initialized.
\<close>

theorem InitCustomEncoders_active_set:
  "select_encoders known cs ins exs = active_set_rule known cs ins exs \<and>
   strings_Split s CHR '','' \<noteq> [] \<and>
   InitCustomEncoders env known cs ces c =
     (case active_set_rule known cs (strings_Split (IncludeEncoders c) CHR '','')
             (strings_Split (ExcludeEncoders c) CHR '','') of
        Inl pn \<Rightarrow> Inl pn
      | Inr selected \<Rightarrow> init_encoders env c selected ces)"
  by (simp add: select_encoders_closed strings_Split_nonempty InitCustomEncoders_def)

theorem InitCustomEncoders_active_set_witness:
  "select_encoders (init sample_catalogue [''TCP'']) sample_catalogue
      (strings_Split ''Flow,TLS,TCP'' CHR '','') (strings_Split ''TLS'' CHR '','')
     = Inr [named ''Flow''] \<and>
   select_encoders (init sample_catalogue [''TCP'']) sample_catalogue
      (strings_Split ''Flow,UDP'' CHR '','') (strings_Split [] CHR '','')
     = Inl (InvalidEncoder ''UDP'') \<and>
   select_encoders (init sample_catalogue [''TCP'']) sample_catalogue
      (strings_Split [] CHR '','') (strings_Split ''HTTP,,UDP'' CHR '','')
     = Inl (InvalidEncoder ''UDP'') \<and>
   select_encoders (init sample_catalogue [''TCP'']) sample_catalogue
      (strings_Split [] CHR '','') (strings_Split ''HTTP,,TCP'' CHR '','')
     = Inr [named ''TLS'', named ''Flow'']"
  using InitCustomEncoders_active_set [THEN conjunct1, of "init sample_catalogue [''TCP'']"
      sample_catalogue "strings_Split ''Flow,TLS,TCP'' CHR '',''" "strings_Split ''TLS'' CHR '',''"]
   InitCustomEncoders_active_set [THEN conjunct1, of "init sample_catalogue [''TCP'']"
      sample_catalogue "strings_Split ''Flow,UDP'' CHR '',''" "strings_Split [] CHR '',''"]
   InitCustomEncoders_active_set [THEN conjunct1, of "init sample_catalogue [''TCP'']"
      sample_catalogue "strings_Split [] CHR '',''" "strings_Split ''HTTP,,UDP'' CHR '',''"]
   InitCustomEncoders_active_set [THEN conjunct1, of "init sample_catalogue [''TCP'']"
      sample_catalogue "strings_Split [] CHR '',''" "strings_Split ''HTTP,,TCP'' CHR '',''"]
  by (simp add: active_set_rule_def remove_first_def sample_catalogue_def init_def named_def
      CreateCustomEncoder_def)

text \<open>
  The claim as stated fails. With the include string \<open>,TLS\<close> the include list is an
  empty string followed by \<open>TLS\<close>: the claim filters the catalogue to \<open>TLS\<close>, the code
  keeps the whole catalogue, so that excluding \<open>HTTP\<close> leaves \<open>TLS\<close> and \<open>Flow\<close>. With
  the include string \<open>,bogus\<close> the unknown name \<open>bogus\<close> is not fatal.
\<close>

theorem InitCustomEncoders_include_after_comma:
  "select_encoders (init sample_catalogue []) sample_catalogue
      (strings_Split '',TLS'' CHR '','') (strings_Split ''HTTP'' CHR '','')
     = Inr [named ''TLS'', named ''Flow''] \<and>
   active_set_as_claimed sample_catalogue
      (strings_Split '',TLS'' CHR '','') (strings_Split ''HTTP'' CHR '','')
     = [named ''TLS''] \<and>
   [named ''TLS'', named ''Flow''] \<noteq> [named ''TLS''] \<and>
   init sample_catalogue [] ''bogus'' = None \<and>
   select_encoders (init sample_catalogue []) sample_catalogue
      (strings_Split '',bogus'' CHR '','') (strings_Split [] CHR '','')
     = Inr sample_catalogue"
  by (simp add: select_encoders_def active_set_as_claimed_def remove_first_def
      sample_catalogue_def init_def named_def CreateCustomEncoder_def)

subsection \<open>The text row of an IPv4 record\<close>

lemma nibble_high: "unat (drop_bit 4 (v :: 8 word)) < 16"
proof -
  have "unat v < 256" using unsigned_less [of v, where 'a = nat] by simp
  then show ?thesis by (simp add: drop_bit_eq_div unat_div)
qed

lemma nibble_low: "unat (and (v :: 8 word) 15) < 16"
proof -
  have "and v 15 \<le> 15" by (rule word_and_le1)
  then have "unat (and v 15) \<le> unat (15 :: 8 word)" by (simp only: word_le_nat_alt)
  then show ?thesis by simp
qed

lemma hextable_nth: "n < 16 \<Longrightarrow> hextable ! n \<in> set hextable"
proof -
  assume "n < 16"
  moreover have "length hextable = 16" by (simp add: hextable_def)
  ultimately show ?thesis by simp
qed

lemma hex_length: "length (hex_EncodeToString src) = 2 * length src"
  by (induction src) auto

lemma hex_digits: "set (hex_EncodeToString src) \<subseteq> set hextable"
  by (induction src) (auto simp add: nibble_high nibble_low hextable_nth)

lemma collect_opts_Some:
  "collect_opts env (map Some os) opts = Inr (opts @ map (ToString env) os)"
  by (induction os arbitrary: opts) auto

lemma strings_Join_empty: "strings_Join xs [] = concat xs"
  by (induction xs "[] :: string" rule: strings_Join.induct) auto

lemma digit_nth: "k < 10 \<Longrightarrow> ''0123456789'' ! k \<in> set ''0123456789''"
proof -
  assume "k < 10"
  then have "k < length ''0123456789''" by simp
  then show ?thesis by (rule nth_mem)
qed

lemma decimal_digits: "set (decimal n) \<subseteq> set ''0123456789''"
proof (induction n rule: decimal.induct)
  case (1 n)
  show ?case
  proof (cases "n < 10")
    case True
    then have "decimal n = [''0123456789'' ! n]" by (subst decimal.simps) simp
    with True digit_nth [of n] show ?thesis by simp
  next
    case False
    then have eq: "decimal n = decimal (n div 10) @ [''0123456789'' ! (n mod 10)]"
      by (subst decimal.simps) simp
    have "n mod 10 < 10" by simp
    then have "''0123456789'' ! (n mod 10) \<in> set ''0123456789''" by (rule digit_nth)
    with "1.IH" [OF False] eq show ?thesis by simp
  qed
qed

lemma decimal_nonempty: "decimal n \<noteq> []"
  by (subst decimal.simps) simp

lemma pad_digits_length: "length (pad_digits k n) = k"
  by (induction k arbitrary: n) auto

lemma pad_digits_digits: "set (pad_digits k n) \<subseteq> set ''0123456789''"
proof (induction k arbitrary: n)
  case 0
  show ?case by simp
next
  case (Suc k)
  have "n mod 10 < 10" by simp
  then have "''0123456789'' ! (n mod 10) \<in> set ''0123456789''" by (rule digit_nth)
  with Suc [of "n div 10"] show ?case by simp
qed

lemma FormatFloat_finite:
  "\<exists>ip fp. strconv_FormatFloat_f (Finite neg m e) 6 = (if neg then ''-'' else []) @ ip @ CHR ''.'' # fp \<and>
     ip \<noteq> [] \<and> set ip \<subseteq> set ''0123456789'' \<and>
     length fp = 6 \<and> set fp \<subseteq> set ''0123456789''"
proof -
  let ?n = "scaled m e 6"
  have "strconv_FormatFloat_f (Finite neg m e) 6 =
      (if neg then ''-'' else []) @ decimal (?n div 10 ^ 6) @ CHR ''.'' # pad_digits 6 (?n mod 10 ^ 6)"
    by (simp add: strconv_FormatFloat_f_def Let_def del: decimal.simps)
  moreover have "decimal (?n div 10 ^ 6) \<noteq> []" by (rule decimal_nonempty)
  moreover have "set (decimal (?n div 10 ^ 6)) \<subseteq> set ''0123456789''" by (rule decimal_digits)
  moreover have "length (pad_digits 6 (?n mod 10 ^ 6)) = 6" by (rule pad_digits_length)
  moreover have "set (pad_digits 6 (?n mod 10 ^ 6)) \<subseteq> set ''0123456789''"
    by (rule pad_digits_digits)
  ultimately show ?thesis by blast
qed

lemma pad_digits_6:
  "pad_digits 6 n =
     [''0123456789'' ! (n div 10 div 10 div 10 div 10 div 10 mod 10),
      ''0123456789'' ! (n div 10 div 10 div 10 div 10 mod 10),
      ''0123456789'' ! (n div 10 div 10 div 10 mod 10),
      ''0123456789'' ! (n div 10 div 10 mod 10),
      ''0123456789'' ! (n div 10 mod 10),
      ''0123456789'' ! (n mod 10)]"
proof -
  have six: "(6 :: nat) = Suc (Suc (Suc (Suc (Suc (Suc 0)))))" by simp
  show ?thesis unfolding six by (simp only: pad_digits.simps append.simps)
qed

lemma sample_entropy: "strconv_FormatFloat_f (Finite False 13 (- 2)) 6 = ''3.250000''"
proof -
  have s: "scaled 13 (- 2) 6 = 3250000" by (simp add: scaled_def round_half_even_def)
  have d: "decimal 3 = ''3''" by simp
  have p: "pad_digits 6 250000 = ''250000''" by (simp add: pad_digits_6)
  show ?thesis
    by (simp add: strconv_FormatFloat_f_def s d p del: decimal.simps)
qed

text \<open>The double nearest to one tenth prints as \<open>0.100000\<close>.\<close>

lemma tenth_entropy:
  "strconv_FormatFloat_f (Finite False 3602879701896397 (- 55)) 6 = ''0.100000''"
proof -
  have s: "scaled 3602879701896397 (- 55) 6 = 100000"
    by (simp add: scaled_def round_half_even_def)
  have d: "decimal 0 = ''0''" by simp
  have p: "pad_digits 6 100000 = ''100000''" by (simp add: pad_digits_6)
  show ?thesis
    by (simp add: strconv_FormatFloat_f_def s d p del: decimal.simps)
qed

lemma sample_row:
  "CSVRecord sample_csv_env sample_ip =
     Inr [''1546300800.000000'', ''4'', ''7'', ''0'', ''60'', ''291'', ''2'', ''0'', ''64'', ''6'',
          ''4660'', ''10.0.0.1'', ''10.0.0.2'', ''00ab'', ''(7-4-01ff)(1-1-)'', ''3.250000'', ''20'']"
  by (simp add: CSVRecord_def sample_csv_env_def sample_ip_def ToString_def hextable_def
     drop_bit_eq_div sample_entropy)

text \<open>
  Claim C8, as amended. For an IPv4 record whose option pointers are all set, the row is
  the column selection applied to 17 fields that line up with the 17 header names. The
  field under \<open>Padding\<close> is the hexadecimal string of the bytes (two digits of
  \<open>0123456789abcdef\<close> per byte); the field under \<open>Options\<close> is the concatenation, in
  order, of one bracketed sub-record per option: begin marker, type, separator, length,
  separator, the hexadecimal string of the data, end marker. The field under
  \<open>PayloadEntropy\<close> is \<open>strconv.FormatFloat\<close> at the format \<open>f\<close> and the precision 6: for
  a finite entropy an optional minus sign, at least one digit, the point and exactly 6
  digits; for an entropy that is not finite one of \<open>NaN\<close>, \<open>+Inf\<close> and \<open>-Inf\<close>, with no
  decimal places.
\<close>

theorem CSVRecord_rendering:
  assumes "Options i = map Some os"
  shows "\<exists>row hdr.
     CSVRecord env i = Inr (filter' env row) \<and> CSVHeader env = filter' env hdr \<and>
     length row = 17 \<and> length hdr = 17 \<and>
     hdr ! 13 = ''Padding'' \<and> row ! 13 = hex_EncodeToString (Padding i) \<and>
     hdr ! 14 = ''Options'' \<and>
     row ! 14 = concat (map (\<lambda>opt.
        Begin env @ formatInt32 env (OptionType opt) @ Separator env
          @ formatInt32 env (OptionLength opt) @ Separator env
          @ hex_EncodeToString (OptionData opt) @ End env) os) \<and>
     map (ToString env) os = map (\<lambda>opt.
        Begin env @ formatInt32 env (OptionType opt) @ Separator env
          @ formatInt32 env (OptionLength opt) @ Separator env
          @ hex_EncodeToString (OptionData opt) @ End env) os \<and>
     hdr ! 15 = ''PayloadEntropy'' \<and>
     row ! 15 = strconv_FormatFloat_f (PayloadEntropy i) 6 \<and>
     (case PayloadEntropy i of
        NaN \<Rightarrow> row ! 15 = ''NaN''
      | Inf neg \<Rightarrow> row ! 15 = (if neg then ''-Inf'' else ''+Inf'')
      | Finite neg m e \<Rightarrow>
          (\<exists>ip fp. row ! 15 = (if neg then ''-'' else []) @ ip @ CHR ''.'' # fp \<and>
             ip \<noteq> [] \<and> set ip \<subseteq> set ''0123456789'' \<and>
             length fp = 6 \<and> set fp \<subseteq> set ''0123456789'')) \<and>
     length (hex_EncodeToString (Padding i)) = 2 * length (Padding i) \<and>
     set (hex_EncodeToString (Padding i)) \<subseteq> set ''0123456789abcdef''"
proof -
  let ?row = "[formatTimestamp env (Timestamp i), formatInt32 env (Version i),
     formatInt32 env (IHL i), formatInt32 env (TOS i), formatInt32 env (Length i),
     formatInt32 env (Id' i), formatInt32 env (Flags i), formatInt32 env (FragOffset i),
     formatInt32 env (TTL i), formatInt32 env (Protocol i), formatInt32 env (Checksum i),
     SrcIP i, DstIP i, hex_EncodeToString (Padding i),
     concat (map (ToString env) os),
     strconv_FormatFloat_f (PayloadEntropy i) 6, formatInt32 env (PayloadSize i)]"
  let ?hdr = "[''Timestamp'', ''Version'', ''IHL'', ''TOS'', ''Length'', ''Id'', ''Flags'',
     ''FragOffset'', ''TTL'', ''Protocol'', ''Checksum'', ''SrcIP'', ''DstIP'',
     ''Padding'', ''Options'', ''PayloadEntropy'', ''PayloadSize'']"
  have row: "CSVRecord env i = Inr (filter' env ?row)"
    using assms by (simp add: CSVRecord_def collect_opts_Some strings_Join_empty)
  have hdr: "CSVHeader env = filter' env ?hdr"
    by (simp add: CSVHeader_def)
  have opts: "map (ToString env) os = map (\<lambda>opt.
        Begin env @ formatInt32 env (OptionType opt) @ Separator env
          @ formatInt32 env (OptionLength opt) @ Separator env
          @ hex_EncodeToString (OptionData opt) @ End env) os"
    by (simp add: ToString_def)
  have digits: "set (hex_EncodeToString (Padding i)) \<subseteq> set ''0123456789abcdef''"
    using hex_digits [of "Padding i"] by (simp only: hextable_def)
  have entropy: "(case PayloadEntropy i of
        NaN \<Rightarrow> ?row ! 15 = ''NaN''
      | Inf neg \<Rightarrow> ?row ! 15 = (if neg then ''-Inf'' else ''+Inf'')
      | Finite neg m e \<Rightarrow>
          (\<exists>ip fp. ?row ! 15 = (if neg then ''-'' else []) @ ip @ CHR ''.'' # fp \<and>
             ip \<noteq> [] \<and> set ip \<subseteq> set ''0123456789'' \<and>
             length fp = 6 \<and> set fp \<subseteq> set ''0123456789''))"
  proof (cases "PayloadEntropy i")
    case NaN
    then show ?thesis by (simp add: strconv_FormatFloat_f_def)
  next
    case (Inf neg)
    then show ?thesis by (simp add: strconv_FormatFloat_f_def)
  next
    case (Finite neg m e)
    have "?row ! 15 = strconv_FormatFloat_f (PayloadEntropy i) 6" by simp
    with Finite FormatFloat_finite [of neg m e] show ?thesis by (simp only: float64.case)
  qed
  have shape: "length ?row = 17 \<and> length ?hdr = 17 \<and>
     ?hdr ! 13 = ''Padding'' \<and> ?row ! 13 = hex_EncodeToString (Padding i) \<and>
     ?hdr ! 14 = ''Options'' \<and> ?row ! 14 = concat (map (ToString env) os) \<and>
     ?hdr ! 15 = ''PayloadEntropy'' \<and> ?row ! 15 = strconv_FormatFloat_f (PayloadEntropy i) 6"
    by simp
  show ?thesis
    apply (rule exI [of _ ?row])
    apply (rule exI [of _ ?hdr])
    using row hdr opts digits entropy shape hex_length [of "Padding i"]
    apply (simp only: )
    done
qed

theorem CSVRecord_rendering_witness:
  "Options sample_ip =
     map Some [\<lparr>OptionType = 7, OptionLength = 4, OptionData = [1, 255]\<rparr>,
               \<lparr>OptionType = 1, OptionLength = 1, OptionData = []\<rparr>] \<and>
   PayloadEntropy sample_ip = Finite False 13 (- 2) \<and>
   CSVRecord sample_csv_env sample_ip =
     Inr [''1546300800.000000'', ''4'', ''7'', ''0'', ''60'', ''291'', ''2'', ''0'', ''64'', ''6'',
          ''4660'', ''10.0.0.1'', ''10.0.0.2'', ''00ab'', ''(7-4-01ff)(1-1-)'', ''3.250000'', ''20'']"
  using CSVRecord_rendering [of sample_ip
      "[\<lparr>OptionType = 7, OptionLength = 4, OptionData = [1, 255]\<rparr>,
        \<lparr>OptionType = 1, OptionLength = 1, OptionData = []\<rparr>]" sample_csv_env]
    sample_row
  by (simp add: sample_ip_def)

text \<open>
  The claim as stated fails: for the sample record with an entropy that is not a number,
  the field under \<open>PayloadEntropy\<close> is \<open>NaN\<close>, which has no point and no decimal place.
\<close>

theorem CSVRecord_entropy_NaN:
  "CSVRecord sample_csv_env (sample_ip\<lparr>PayloadEntropy := NaN\<rparr>) =
     Inr [''1546300800.000000'', ''4'', ''7'', ''0'', ''60'', ''291'', ''2'', ''0'', ''64'', ''6'',
          ''4660'', ''10.0.0.1'', ''10.0.0.2'', ''00ab'', ''(7-4-01ff)(1-1-)'', ''NaN'', ''20''] \<and>
   CHR ''.'' \<notin> set ''NaN''"
  by (simp add: CSVRecord_def sample_csv_env_def sample_ip_def ToString_def hextable_def
     drop_bit_eq_div strconv_FormatFloat_f_def)

end
